theory Spec2Isabelle
  imports Main
begin

section \<open>The invoice-paid webhook handler\<close>

text \<open>
  A shallow embedding of \<^verbatim>\<open>invoicePaid\<close> from
  \<^verbatim>\<open>apps/web/app/api/stripe/integration/webhook/invoice-paid.ts\<close>.
  The handler talks to a relational store (Prisma), a key-value store (Redis), an
  event store (Tinybird) and two dispatchers. All of them are fields of one record,
  \<open>world\<close>, which the model takes and returns updated. A thrown exception is the
  \<open>Inl\<close> of the result; the world returned with it holds the writes made before
  the throw, since the handler has no transaction around them. A collaborator that
  cannot be reached at all is not modelled: every store answers, and an operation
  fails only where its row is missing. Time is not modelled either: a dedup key that
  is set is a key within its expiry window.
\<close>

subsection \<open>Data\<close>

text \<open>A JavaScript \<^verbatim>\<open>Date\<close> is an object, hence always truthy; a nullable one is an option.\<close>

datatype date = Date int

record customer =
  cust_id :: string
  projectId :: string
  clickedAt :: "date option"
  createdAt :: date

text \<open>The fields of \<^verbatim>\<open>Stripe.Invoice\<close> that the handler reads.\<close>

record invoice =
  inv_id :: string
  inv_customer :: string
  amount_paid :: int
  currency :: string

text \<open>
  A row of the lead-event response. The handler reads \<^verbatim>\<open>link_id\<close> only; the other
  attribution fields travel along unchanged.
\<close>

record lead_event =
  link_id :: string
  lead_fields :: "(string \<times> string) list"

text \<open>
  \<^verbatim>\<open>saleData\<close>: the spread of the first lead row, with the stamped fields after it.
  \<open>metadata\<close> is the serialised invoice, kept as the invoice itself.
\<close>

record sale_data =
  lead :: lead_event
  event_id :: string
  event_name :: string
  payment_processor :: string
  amount :: int
  sale_currency :: string
  invoice_id :: string
  metadata :: invoice

text \<open>
  A row of the link table. The table is a map from the primary key, so the row's own
  \<^verbatim>\<open>id\<close> is the key it was found under.
\<close>

record link =
  programId :: "string option"
  shortLink :: string
  sales :: int
  saleAmount :: int

record project =
  usage :: int
  salesUsage :: int

record program =
  program_name :: string

text \<open>A program enrollment with the ids of its links.\<close>

record enrollment =
  enr_program :: program
  partnerId :: string
  commissionAmount :: int
  enr_links :: "string list"

text \<open>The rest of the selected enrollment once \<^verbatim>\<open>program\<close> is taken out of it.\<close>

record partner =
  p_partnerId :: string
  p_commissionAmount :: int

text \<open>The argument of \<^verbatim>\<open>prepareEarnings\<close>; the event is (type, id), the sale is
  (amount, currency, invoiceId).\<close>

record earnings_input =
  ei_linkId :: string
  ei_customerId :: string
  ei_program :: program
  ei_partner :: partner
  ei_event :: "string \<times> string"
  ei_sale :: "int \<times> string \<times> string"

text \<open>
  What \<^verbatim>\<open>prepareEarnings\<close> returns, as far as the handler reads it: both fields are
  optional in its type, and the handler passes them on with a non-null assertion,
  which checks nothing at run time.
\<close>

record earnings_data =
  ed_amount :: "int option"
  ed_earnings :: "int option"

text \<open>The argument of \<^verbatim>\<open>notifyPartnerSale\<close>.\<close>

record partner_sale =
  ns_partner_id :: string
  ns_referralLink :: string
  ns_program :: program
  ns_amount :: "int option"
  ns_earnings :: "int option"

text \<open>The argument of \<^verbatim>\<open>transformSaleEventData\<close>.\<close>

record sale_event_input =
  se_sale :: sale_data
  se_clickedAt :: date
  se_link :: link
  se_customer :: customer

text \<open>The argument of \<^verbatim>\<open>sendWorkspaceWebhook\<close>; \<open>'w\<close> is the transformed payload.\<close>

record 'w webhook =
  trigger :: string
  workspace :: project
  wh_data :: 'w

text \<open>
  The collaborators' state. \<open>customers\<close> is indexed by the unique column
  \<^verbatim>\<open>stripeCustomerId\<close>, \<open>links\<close> and \<open>projects\<close> by their primary keys.
  \<open>redis\<close> maps a key to its value and its expiry in seconds. \<open>lead_events\<close> is the
  response of \<^verbatim>\<open>getLeadEvent\<close> for a customer id (\<open>None\<close> for a null response,
  otherwise its \<^verbatim>\<open>data\<close> rows). The last four fields are logs: the sale events
  ingested, the earnings rows created, and the two kinds of task handed to
  \<^verbatim>\<open>waitUntil\<close>.
\<close>

record 'w world =
  customers :: "string \<rightharpoonup> customer"
  redis :: "string \<rightharpoonup> int \<times> nat"
  lead_events :: "string \<Rightarrow> lead_event list option"
  links :: "string \<rightharpoonup> link"
  projects :: "string \<rightharpoonup> project"
  enrollments :: "enrollment list"
  sale_events :: "sale_data list"
  earnings :: "earnings_data list"
  partner_notifications :: "partner_sale list"
  webhooks :: "'w webhook list"

text \<open>
  The exceptions the handler lets through: \<^verbatim>\<open>prisma.project.update\<close> on a missing row,
  and \<^verbatim>\<open>prisma.programEnrollment.findFirstOrThrow\<close> finding nothing.
\<close>

datatype error = RecordToUpdateNotFound | EnrollmentNotFound

subsection \<open>Collaborator operations\<close>

text \<open>\<^verbatim>\<open>redis.set(key, value, { ex, nx: true })\<close>: sets the key only if it is absent,
  and says whether it did.\<close>

definition redis_set_nx ::
  "string \<Rightarrow> int \<Rightarrow> nat \<Rightarrow> (string \<rightharpoonup> int \<times> nat) \<Rightarrow> bool \<times> (string \<rightharpoonup> int \<times> nat)" where
  "redis_set_nx k v ex r =
     (case r k of
        Some _ \<Rightarrow> (False, r)
      | None \<Rightarrow> (True, r(k \<mapsto> (v, ex))))"

definition dedup_key :: "string \<Rightarrow> string" where
  "dedup_key invoiceId = ''dub_sale_events:invoiceId:'' @ invoiceId"

definition dedup_expiry :: nat where
  "dedup_expiry = 60 * 60 * 24 * 7"

text \<open>JavaScript truthiness of a nullable string: null and the empty string are falsy.\<close>

definition truthy :: "string option \<Rightarrow> bool" where
  "truthy s = (case s of None \<Rightarrow> False | Some x \<Rightarrow> x \<noteq> [])"

text \<open>\<^verbatim>\<open>a || b\<close> for a nullable date \<open>a\<close>.\<close>

definition or_else :: "date option \<Rightarrow> date \<Rightarrow> date" where
  "or_else a b = (case a of None \<Rightarrow> b | Some d \<Rightarrow> d)"

subsection \<open>The handler\<close>

text \<open>
  \<^verbatim>\<open>prepareEarnings\<close> and \<^verbatim>\<open>transformSaleEventData\<close> are imported from modules
  outside the file and are parameters here, as is the id that \<^verbatim>\<open>nanoid(16)\<close> draws.
  The three writes under \<^verbatim>\<open>Promise.all\<close> are all started: when the project update
  rejects, the sale event and the link update have been issued all the same.
\<close>

definition invoicePaid ::
  "(earnings_input \<Rightarrow> earnings_data) \<Rightarrow> (sale_event_input \<Rightarrow> 'w) \<Rightarrow> string \<Rightarrow>
   invoice \<Rightarrow> 'w world \<Rightarrow> (error + string) \<times> 'w world" where
  "invoicePaid prepareEarnings transformSaleEventData eventId invoice w =
    (let stripeCustomerId = inv_customer invoice;
         invoiceId = inv_id invoice
     in case customers w stripeCustomerId of
       None \<Rightarrow>
         (Inr (''Customer with stripeCustomerId '' @ stripeCustomerId @ '' not found, skipping...''), w)
     | Some customer \<Rightarrow>
        (case redis_set_nx (dedup_key invoiceId) 1 dedup_expiry (redis w) of
          (ok, r) \<Rightarrow>
           let w1 = w\<lparr>redis := r\<rparr> in
           if \<not> ok then
             (Inr (''Invoice with ID '' @ invoiceId @ '' already processed, skipping...''), w1)
           else if amount_paid invoice = 0 then
             (Inr (''Invoice with ID '' @ invoiceId @ '' has an amount of 0, skipping...''), w1)
           else
            (case lead_events w1 (cust_id customer) of
               None \<Rightarrow>
                 (Inr (''Lead event with customer ID '' @ cust_id customer @ '' not found, skipping...''), w1)
             | Some [] \<Rightarrow>
                 (Inr (''Lead event with customer ID '' @ cust_id customer @ '' not found, skipping...''), w1)
             | Some (lead0 # _) \<Rightarrow>
                let saleData = \<lparr>lead = lead0, event_id = eventId,
                                event_name = ''Subscription update'',
                                payment_processor = ''stripe'',
                                amount = amount_paid invoice,
                                sale_currency = currency invoice,
                                invoice_id = invoiceId,
                                metadata = invoice\<rparr>;
                    linkId = link_id lead0
                in (case links w1 linkId of
                  None \<Rightarrow> (Inr (''Link with ID '' @ linkId @ '' not found, skipping...''), w1)
                | Some link \<Rightarrow>
                   (let linkUpdated = link\<lparr>sales := sales link + 1,
                                          saleAmount := saleAmount link + amount_paid invoice\<rparr>;
                       w2 = w1\<lparr>sale_events := sale_events w1 @ [saleData],
                               links := (links w1)(linkId \<mapsto> linkUpdated)\<rparr>
                   in (case projects w2 (projectId customer) of
                     None \<Rightarrow> (Inl RecordToUpdateNotFound, w2)
                   | Some p \<Rightarrow>
                      (let workspace = p\<lparr>usage := usage p + 1,
                                         salesUsage := salesUsage p + amount_paid invoice\<rparr>;
                          w3 = w2\<lparr>projects := (projects w2)(projectId customer \<mapsto> workspace)\<rparr>;
                          program_links =
                            (if truthy (programId link) then
                               (case find (\<lambda>e. linkId \<in> set (enr_links e)) (enrollments w3) of
                                  None \<Rightarrow> Inl EnrollmentNotFound
                                | Some e \<Rightarrow>
                                   (let program = enr_program e;
                                       partner = \<lparr>p_partnerId = partnerId e,
                                                  p_commissionAmount = commissionAmount e\<rparr>;
                                       earningsData = prepareEarnings
                                         \<lparr>ei_linkId = linkId,
                                          ei_customerId = cust_id customer,
                                          ei_program = program,
                                          ei_partner = partner,
                                          ei_event = (''sale'', eventId),
                                          ei_sale = (amount saleData, sale_currency saleData,
                                                     invoice_id saleData)\<rparr>
                                   in Inr (w3\<lparr>earnings := earnings w3 @ [earningsData],
                                              partner_notifications :=
                                                partner_notifications w3 @
                                                [\<lparr>ns_partner_id = p_partnerId partner,
                                                  ns_referralLink = shortLink link,
                                                  ns_program = program,
                                                  ns_amount = ed_amount earningsData,
                                                  ns_earnings = ed_earnings earningsData\<rparr>]\<rparr>)))
                             else Inr w3)
                      in (case program_links of
                        Inl err \<Rightarrow> (Inl err, w3)
                      | Inr w4 \<Rightarrow>
                         (Inr (''Sale recorded for customer ID '' @ cust_id customer @
                               '' and invoice ID '' @ invoiceId),
                          w4\<lparr>webhooks := webhooks w4 @
                               [\<lparr>trigger = ''sale.created'',
                                 workspace = workspace,
                                 wh_data = transformSaleEventData
                                   \<lparr>se_sale = saleData,
                                    se_clickedAt = or_else (clickedAt customer) (createdAt customer),
                                    se_link = linkUpdated,
                                    se_customer = customer\<rparr>\<rparr>]\<rparr>)))))))))"

subsection \<open>Sample data\<close>

text \<open>
  A small world for evaluating the handler: one customer, one link (with a given
  program id), one workspace, a given list of enrollments and a given lead response.
\<close>

definition demo_customer :: customer where
  "demo_customer =
     \<lparr>cust_id = ''cus_1'', projectId = ''ws_1'', clickedAt = None, createdAt = Date 1000\<rparr>"

definition demo_invoice :: "int \<Rightarrow> invoice" where
  "demo_invoice paid =
     \<lparr>inv_id = ''in_1'', inv_customer = ''cus_stripe_1'', amount_paid = paid, currency = ''usd''\<rparr>"

definition demo_lead :: lead_event where
  "demo_lead = \<lparr>link_id = ''link_1'', lead_fields = [(''click_id'', ''click_1'')]\<rparr>"

definition demo_link :: "string option \<Rightarrow> link" where
  "demo_link prog =
     \<lparr>programId = prog, shortLink = ''https://dub.sh/demo'', sales = 2, saleAmount = 700\<rparr>"

definition demo_project :: project where
  "demo_project = \<lparr>usage = 10, salesUsage = 900\<rparr>"

definition demo_enrollment :: enrollment where
  "demo_enrollment =
     \<lparr>enr_program = \<lparr>program_name = ''Acme''\<rparr>, partnerId = ''pn_1'',
      commissionAmount = 10, enr_links = [''link_1'']\<rparr>"

definition demo_world ::
  "string option \<Rightarrow> enrollment list \<Rightarrow> lead_event list option \<Rightarrow> sale_event_input world" where
  "demo_world prog enrs leads =
     \<lparr>customers = [''cus_stripe_1'' \<mapsto> demo_customer],
      redis = Map.empty,
      lead_events = (\<lambda>cid. if cid = ''cus_1'' then leads else None),
      links = [''link_1'' \<mapsto> demo_link prog],
      projects = [''ws_1'' \<mapsto> demo_project],
      enrollments = enrs,
      sale_events = [],
      earnings = [],
      partner_notifications = [],
      webhooks = []\<rparr>"

definition demo_prepareEarnings :: "earnings_input \<Rightarrow> earnings_data" where
  "demo_prepareEarnings i =
     \<lparr>ed_amount = Some (fst (ei_sale i)),
      ed_earnings = Some (p_commissionAmount (ei_partner i))\<rparr>"

section \<open>Properties\<close>

lemmas demo_defs = demo_customer_def demo_invoice_def demo_lead_def demo_link_def
  demo_project_def demo_enrollment_def demo_world_def demo_prepareEarnings_def

subsection \<open>The outcome of each path\<close>

lemma invoicePaid_no_customer:
  "customers w (inv_customer invoice) = None \<Longrightarrow>
   invoicePaid prep tr eid invoice w =
     (Inr (''Customer with stripeCustomerId '' @ inv_customer invoice @ '' not found, skipping...''), w)"
  by (simp add: invoicePaid_def)

lemma invoicePaid_key_present:
  "customers w (inv_customer invoice) = Some c \<Longrightarrow>
   redis w (dedup_key (inv_id invoice)) = Some v \<Longrightarrow>
   invoicePaid prep tr eid invoice w =
     (Inr (''Invoice with ID '' @ inv_id invoice @ '' already processed, skipping...''), w)"
  by (simp add: invoicePaid_def redis_set_nx_def)

lemma invoicePaid_consumes_key:
  "customers w (inv_customer invoice) = Some c \<Longrightarrow>
   redis (snd (invoicePaid prep tr eid invoice w)) (dedup_key (inv_id invoice)) \<noteq> None"
  by (simp add: invoicePaid_def redis_set_nx_def Let_def split: option.splits list.splits sum.splits)

text \<open>A sale processed to the end, for a link outside any program.\<close>

lemma invoicePaid_plain:
  assumes "customers w (inv_customer invoice) = Some c"
    and "redis w (dedup_key (inv_id invoice)) = None"
    and "amount_paid invoice \<noteq> 0"
    and "lead_events w (cust_id c) = Some (l # ls)"
    and "links w (link_id l) = Some lk"
    and "projects w (projectId c) = Some p"
    and "\<not> truthy (programId lk)"
  shows "invoicePaid prep tr eid invoice w =
    (Inr (''Sale recorded for customer ID '' @ cust_id c @ '' and invoice ID '' @ inv_id invoice),
     w\<lparr>redis := (redis w)(dedup_key (inv_id invoice) \<mapsto> (1, dedup_expiry)),
       sale_events := sale_events w @
         [\<lparr>lead = l, event_id = eid, event_name = ''Subscription update'',
           payment_processor = ''stripe'', amount = amount_paid invoice,
           sale_currency = currency invoice, invoice_id = inv_id invoice,
           metadata = invoice\<rparr>],
       links := (links w)(link_id l \<mapsto>
         lk\<lparr>sales := sales lk + 1, saleAmount := saleAmount lk + amount_paid invoice\<rparr>),
       projects := (projects w)(projectId c \<mapsto>
         p\<lparr>usage := usage p + 1, salesUsage := salesUsage p + amount_paid invoice\<rparr>),
       webhooks := webhooks w @
         [\<lparr>trigger = ''sale.created'',
           workspace = p\<lparr>usage := usage p + 1, salesUsage := salesUsage p + amount_paid invoice\<rparr>,
           wh_data = tr
             \<lparr>se_sale = \<lparr>lead = l, event_id = eid, event_name = ''Subscription update'',
                 payment_processor = ''stripe'', amount = amount_paid invoice,
                 sale_currency = currency invoice, invoice_id = inv_id invoice,
                 metadata = invoice\<rparr>,
              se_clickedAt = or_else (clickedAt c) (createdAt c),
              se_link = lk\<lparr>sales := sales lk + 1, saleAmount := saleAmount lk + amount_paid invoice\<rparr>,
              se_customer = c\<rparr>\<rparr>]\<rparr>)"
  using assms by (simp add: invoicePaid_def redis_set_nx_def Let_def)

text \<open>A sale processed to the end, for a program link with an enrollment.\<close>

lemma invoicePaid_enrolled:
  assumes "customers w (inv_customer invoice) = Some c"
    and "redis w (dedup_key (inv_id invoice)) = None"
    and "amount_paid invoice \<noteq> 0"
    and "lead_events w (cust_id c) = Some (l # ls)"
    and "links w (link_id l) = Some lk"
    and "projects w (projectId c) = Some p"
    and "truthy (programId lk)"
    and "find (\<lambda>e. link_id l \<in> set (enr_links e)) (enrollments w) = Some e"
    and "ed = prep \<lparr>ei_linkId = link_id l, ei_customerId = cust_id c,
                     ei_program = enr_program e,
                     ei_partner = \<lparr>p_partnerId = partnerId e,
                                   p_commissionAmount = commissionAmount e\<rparr>,
                     ei_event = (''sale'', eid),
                     ei_sale = (amount_paid invoice, currency invoice, inv_id invoice)\<rparr>"
  shows "invoicePaid prep tr eid invoice w =
    (Inr (''Sale recorded for customer ID '' @ cust_id c @ '' and invoice ID '' @ inv_id invoice),
     w\<lparr>redis := (redis w)(dedup_key (inv_id invoice) \<mapsto> (1, dedup_expiry)),
       sale_events := sale_events w @
         [\<lparr>lead = l, event_id = eid, event_name = ''Subscription update'',
           payment_processor = ''stripe'', amount = amount_paid invoice,
           sale_currency = currency invoice, invoice_id = inv_id invoice,
           metadata = invoice\<rparr>],
       links := (links w)(link_id l \<mapsto>
         lk\<lparr>sales := sales lk + 1, saleAmount := saleAmount lk + amount_paid invoice\<rparr>),
       projects := (projects w)(projectId c \<mapsto>
         p\<lparr>usage := usage p + 1, salesUsage := salesUsage p + amount_paid invoice\<rparr>),
       earnings := earnings w @ [ed],
       partner_notifications := partner_notifications w @
         [\<lparr>ns_partner_id = partnerId e, ns_referralLink = shortLink lk,
           ns_program = enr_program e, ns_amount = ed_amount ed,
           ns_earnings = ed_earnings ed\<rparr>],
       webhooks := webhooks w @
         [\<lparr>trigger = ''sale.created'',
           workspace = p\<lparr>usage := usage p + 1, salesUsage := salesUsage p + amount_paid invoice\<rparr>,
           wh_data = tr
             \<lparr>se_sale = \<lparr>lead = l, event_id = eid, event_name = ''Subscription update'',
                 payment_processor = ''stripe'', amount = amount_paid invoice,
                 sale_currency = currency invoice, invoice_id = inv_id invoice,
                 metadata = invoice\<rparr>,
              se_clickedAt = or_else (clickedAt c) (createdAt c),
              se_link = lk\<lparr>sales := sales lk + 1, saleAmount := saleAmount lk + amount_paid invoice\<rparr>,
              se_customer = c\<rparr>\<rparr>]\<rparr>)"
  using assms by (simp add: invoicePaid_def redis_set_nx_def Let_def)

subsection \<open>A recorded sale\<close>

text \<open>
  Claim C1. The concrete scenario: the invoice's customer is found and has id
  \<open>cus_1\<close>; the invoice \<open>in_1\<close> has \<^verbatim>\<open>amount_paid = 500\<close> and currency \<open>usd\<close> and is
  delivered for the first time (its dedup key is not set); the lead response starts
  with a row whose \<^verbatim>\<open>link_id\<close> is \<open>link_1\<close>; link \<open>link_1\<close> has a null program id;
  the customer's workspace exists. Then the link's \<open>sales\<close> grows by 1 and its
  \<open>saleAmount\<close> by 500, the workspace's \<open>usage\<close> grows by 1 and its \<open>salesUsage\<close>
  by 500, exactly one sale event is appended and its amount is 500, no earnings row
  is created, one workspace webhook is dispatched with trigger \<open>sale.created\<close>, and
  the handler returns \<open>Sale recorded for customer ID cus_1 and invoice ID in_1\<close>.
\<close>

theorem scenario_sale_recorded:
  assumes "customers w (inv_customer invoice) = Some c"
    and "cust_id c = ''cus_1''"
    and "inv_id invoice = ''in_1''"
    and "amount_paid invoice = 500"
    and "currency invoice = ''usd''"
    and "redis w (dedup_key ''in_1'') = None"
    and "lead_events w ''cus_1'' = Some (l # ls)"
    and "link_id l = ''link_1''"
    and "links w ''link_1'' = Some lk"
    and "programId lk = None"
    and "projects w (projectId c) = Some p"
    and "invoicePaid prep tr eid invoice w = (res, w')"
  shows "links w' ''link_1'' = Some (lk\<lparr>sales := sales lk + 1, saleAmount := saleAmount lk + 500\<rparr>)
    \<and> projects w' (projectId c) = Some (p\<lparr>usage := usage p + 1, salesUsage := salesUsage p + 500\<rparr>)
    \<and> (\<exists>sale. sale_events w' = sale_events w @ [sale] \<and> amount sale = 500)
    \<and> earnings w' = earnings w
    \<and> (\<exists>wh. webhooks w' = webhooks w @ [wh] \<and> trigger wh = ''sale.created'')
    \<and> res = Inr ''Sale recorded for customer ID cus_1 and invoice ID in_1''"
proof -
  have np: "\<not> truthy (programId lk)"
    using assms(10) by (simp add: truthy_def)
  have "invoicePaid prep tr eid invoice w = (res, w')"
    by (rule assms(12))
  with invoicePaid_plain [of w invoice c l ls lk p prep tr eid] np assms(1-11)
  show ?thesis by auto
qed

theorem scenario_sale_recorded_witness:
  "(case invoicePaid demo_prepareEarnings id ''evt_1'' (demo_invoice 500)
          (demo_world None [] (Some [demo_lead])) of
      (res, w') \<Rightarrow>
        links w' ''link_1'' =
          Some \<lparr>programId = None, shortLink = ''https://dub.sh/demo'', sales = 3, saleAmount = 1200\<rparr>
        \<and> projects w' ''ws_1'' = Some \<lparr>usage = 11, salesUsage = 1400\<rparr>
        \<and> map amount (sale_events w') = [500]
        \<and> earnings w' = []
        \<and> map trigger (webhooks w') = [''sale.created'']
        \<and> res = Inr ''Sale recorded for customer ID cus_1 and invoice ID in_1'')"
  using scenario_sale_recorded
    [where w = "demo_world None [] (Some [demo_lead])" and invoice = "demo_invoice 500"
       and c = demo_customer and l = demo_lead and ls = "[]" and lk = "demo_link None"
       and p = demo_project and prep = demo_prepareEarnings and tr = id and eid = "''evt_1''"
       and res = "fst (invoicePaid demo_prepareEarnings id ''evt_1'' (demo_invoice 500)
                        (demo_world None [] (Some [demo_lead])))"
       and w' = "snd (invoicePaid demo_prepareEarnings id ''evt_1'' (demo_invoice 500)
                        (demo_world None [] (Some [demo_lead])))"]
  by (auto simp add: demo_defs dedup_key_def split_beta)

subsection \<open>Skips after the dedup claim\<close>

text \<open>
  Claim C2. When the customer is found, the dedup claim succeeds and the invoice's
  \<^verbatim>\<open>amount_paid\<close> is 0, the handler returns the zero-amount skip message, and the
  only change to the world is the dedup key, set to 1 with an expiry of seven days.
  So no sale event is ingested, no link or workspace counter moves, no earnings row
  is created, and the key is consumed all the same.
\<close>

theorem zero_amount_skips_after_claim:
  assumes "customers w (inv_customer invoice) = Some c"
    and "redis w (dedup_key (inv_id invoice)) = None"
    and "amount_paid invoice = 0"
  shows "invoicePaid prep tr eid invoice w =
     (Inr (''Invoice with ID '' @ inv_id invoice @ '' has an amount of 0, skipping...''),
      w\<lparr>redis := (redis w)(dedup_key (inv_id invoice) \<mapsto> (1, 60 * 60 * 24 * 7))\<rparr>)"
  using assms by (simp add: invoicePaid_def redis_set_nx_def dedup_expiry_def Let_def)

theorem zero_amount_skips_after_claim_witness:
  "invoicePaid demo_prepareEarnings id ''evt_1'' (demo_invoice 0)
     (demo_world None [] (Some [demo_lead])) =
   (Inr ''Invoice with ID in_1 has an amount of 0, skipping...'',
    (demo_world None [] (Some [demo_lead]))
      \<lparr>redis := [''dub_sale_events:invoiceId:in_1'' \<mapsto> (1, 604800)]\<rparr>)"
  using zero_amount_skips_after_claim
    [of "demo_world None [] (Some [demo_lead])" "demo_invoice 0" demo_customer
        demo_prepareEarnings id "''evt_1''"]
  by (simp add: demo_defs dedup_key_def)

text \<open>
  Claim C7. When the customer is found and the dedup claim succeeds, but the lead
  response is null or has no rows, the handler returns a skip message (the
  zero-amount one if the amount is 0, the lead-not-found one otherwise) and the only
  change to the world is the dedup key: no sale event, no counter increment, no
  earnings row, no notification, no webhook.
\<close>

theorem no_lead_event_skips_after_claim:
  assumes "customers w (inv_customer invoice) = Some c"
    and "redis w (dedup_key (inv_id invoice)) = None"
    and "lead_events w (cust_id c) = None \<or> lead_events w (cust_id c) = Some []"
  shows "invoicePaid prep tr eid invoice w =
     (Inr (if amount_paid invoice = 0
           then ''Invoice with ID '' @ inv_id invoice @ '' has an amount of 0, skipping...''
           else ''Lead event with customer ID '' @ cust_id c @ '' not found, skipping...''),
      w\<lparr>redis := (redis w)(dedup_key (inv_id invoice) \<mapsto> (1, 60 * 60 * 24 * 7))\<rparr>)"
  using assms by (auto simp add: invoicePaid_def redis_set_nx_def dedup_expiry_def Let_def)

theorem no_lead_event_skips_after_claim_witness:
  "invoicePaid demo_prepareEarnings id ''evt_1'' (demo_invoice 500) (demo_world None [] (Some [])) =
   (Inr ''Lead event with customer ID cus_1 not found, skipping...'',
    (demo_world None [] (Some []))
      \<lparr>redis := [''dub_sale_events:invoiceId:in_1'' \<mapsto> (1, 604800)]\<rparr>)"
  using no_lead_event_skips_after_claim
    [where w = "demo_world None [] (Some [])" and invoice = "demo_invoice 500"
       and c = demo_customer and prep = demo_prepareEarnings and tr = id and eid = "''evt_1''"]
  by (simp add: demo_defs dedup_key_def)

text \<open>
  Claim C3. When the dedup key of the invoice id is already set, the handler returns
  the already-processed message and leaves the whole world as it was: no sale event,
  no counter, no earnings row, no notification, no webhook. Hence, after any
  invocation that found its customer, a second delivery of the same invoice id, with
  whatever payload, event id and collaborators, changes nothing; in particular it
  adds no sale event.
\<close>

theorem failed_dedup_claim_writes_nothing:
  "(customers w (inv_customer invoice) = Some c \<and>
    redis w (dedup_key (inv_id invoice)) = Some v \<longrightarrow>
      invoicePaid prep tr eid invoice w =
        (Inr (''Invoice with ID '' @ inv_id invoice @ '' already processed, skipping...''), w))
   \<and>
   (customers w (inv_customer invoice) = Some c \<and>
    w' = snd (invoicePaid prep tr eid invoice w) \<and>
    inv_id invoice' = inv_id invoice \<longrightarrow>
      snd (invoicePaid prep' tr' eid' invoice' w') = w')"
proof (intro conjI impI)
  assume "customers w (inv_customer invoice) = Some c \<and>
    redis w (dedup_key (inv_id invoice)) = Some v"
  then show "invoicePaid prep tr eid invoice w =
        (Inr (''Invoice with ID '' @ inv_id invoice @ '' already processed, skipping...''), w)"
    by (simp add: invoicePaid_key_present)
next
  assume a: "customers w (inv_customer invoice) = Some c \<and>
    w' = snd (invoicePaid prep tr eid invoice w) \<and>
    inv_id invoice' = inv_id invoice"
  then have "redis w' (dedup_key (inv_id invoice')) \<noteq> None"
    by (simp add: invoicePaid_consumes_key)
  then obtain v' where k: "redis w' (dedup_key (inv_id invoice')) = Some v'"
    by blast
  show "snd (invoicePaid prep' tr' eid' invoice' w') = w'"
  proof (cases "customers w' (inv_customer invoice')")
    case None
    then show ?thesis by (simp add: invoicePaid_no_customer)
  next
    case (Some c2)
    then show ?thesis using k by (simp add: invoicePaid_key_present)
  qed
qed

theorem failed_dedup_claim_writes_nothing_witness:
  "invoicePaid demo_prepareEarnings id ''evt_2'' (demo_invoice 500)
     ((demo_world None [] (Some [demo_lead]))
        \<lparr>redis := [''dub_sale_events:invoiceId:in_1'' \<mapsto> (1, 604800)]\<rparr>) =
   (Inr ''Invoice with ID in_1 already processed, skipping...'',
    (demo_world None [] (Some [demo_lead]))
        \<lparr>redis := [''dub_sale_events:invoiceId:in_1'' \<mapsto> (1, 604800)]\<rparr>)
   \<and>
   snd (invoicePaid demo_prepareEarnings id ''evt_2'' (demo_invoice 900)
         (snd (invoicePaid demo_prepareEarnings id ''evt_1'' (demo_invoice 500)
                (demo_world None [] (Some [demo_lead]))))) =
   snd (invoicePaid demo_prepareEarnings id ''evt_1'' (demo_invoice 500)
         (demo_world None [] (Some [demo_lead])))"
  using failed_dedup_claim_writes_nothing
    [where w = "(demo_world None [] (Some [demo_lead]))
           \<lparr>redis := [''dub_sale_events:invoiceId:in_1'' \<mapsto> (1, 604800)]\<rparr>"
       and invoice = "demo_invoice 500" and c = demo_customer and v = "(1, 604800)"
       and prep = demo_prepareEarnings and tr = id and eid = "''evt_2''"
       and w' = "(demo_world None [] (Some [demo_lead]))
           \<lparr>redis := [''dub_sale_events:invoiceId:in_1'' \<mapsto> (1, 604800)]\<rparr>"
       and invoice' = "demo_invoice 900" and prep' = demo_prepareEarnings
       and tr' = id and eid' = "''evt_2''"]
    failed_dedup_claim_writes_nothing
    [where w = "demo_world None [] (Some [demo_lead])"
       and invoice = "demo_invoice 500" and c = demo_customer and v = "(1, 604800)"
       and prep = demo_prepareEarnings and tr = id and eid = "''evt_1''"
       and w' = "snd (invoicePaid demo_prepareEarnings id ''evt_1'' (demo_invoice 500)
                (demo_world None [] (Some [demo_lead])))"
       and invoice' = "demo_invoice 900" and prep' = demo_prepareEarnings
       and tr' = id and eid' = "''evt_2''"]
  by (simp add: demo_defs dedup_key_def)

subsection \<open>When a sale event is ingested\<close>

text \<open>
  Claim C4, amended. Whenever an invocation adds a sale event, the customer lookup by
  the invoice's external customer id succeeded, the invoice's \<^verbatim>\<open>amount_paid\<close> is not 0,
  and the lead response for that customer has at least one row. The guard in the
  handler is \<^verbatim>\<open>amount_paid === 0\<close>, so what holds of the amount is that it is nonzero
  (and hence positive whenever it is not negative).
\<close>

theorem sale_event_preconditions:
  assumes "sale_events (snd (invoicePaid prep tr eid invoice w)) \<noteq> sale_events w"
  shows "\<exists>c. customers w (inv_customer invoice) = Some c \<and>
             amount_paid invoice \<noteq> 0 \<and>
             (\<exists>l ls. lead_events w (cust_id c) = Some (l # ls))"
  using assms
  by (simp add: invoicePaid_def redis_set_nx_def Let_def
           split: option.splits list.splits sum.splits if_splits)

theorem sale_event_preconditions_witness:
  "sale_events (snd (invoicePaid demo_prepareEarnings id ''evt_1'' (demo_invoice 500)
      (demo_world None [] (Some [demo_lead])))) \<noteq> [] \<and>
   customers (demo_world None [] (Some [demo_lead])) (inv_customer (demo_invoice 500)) =
     Some demo_customer \<and>
   amount_paid (demo_invoice 500) \<noteq> 0 \<and>
   lead_events (demo_world None [] (Some [demo_lead])) ''cus_1'' = Some [demo_lead]"
proof -
  have grown: "sale_events (snd (invoicePaid demo_prepareEarnings id ''evt_1'' (demo_invoice 500)
      (demo_world None [] (Some [demo_lead])))) \<noteq>
      sale_events (demo_world None [] (Some [demo_lead]))"
    by (simp add: invoicePaid_def redis_set_nx_def Let_def demo_defs)
  from sale_event_preconditions [OF grown] grown
  show ?thesis by (simp add: demo_defs)
qed

text \<open>
  With a strictly positive amount in place of a nonzero one the statement fails: an
  invoice with \<^verbatim>\<open>amount_paid = -1\<close> passes the zero-amount guard and a sale event is
  ingested.
\<close>

theorem sale_event_negative_amount_counterexample:
  "sale_events (snd (invoicePaid demo_prepareEarnings id ''evt_1'' (demo_invoice (- 1))
      (demo_world None [] (Some [demo_lead])))) \<noteq>
   sale_events (demo_world None [] (Some [demo_lead])) \<and>
   \<not> 0 < amount_paid (demo_invoice (- 1))"
  by (simp add: invoicePaid_def redis_set_nx_def Let_def demo_defs)

subsection \<open>Program links\<close>

text \<open>
  Claim C5, amended. For a processed sale (customer found, first delivery, nonzero
  amount, lead row, link and workspace found) whose link has a program id that is
  neither null nor the empty string, and for which an enrollment holding the link
  exists, exactly one earnings row is created: the one \<^verbatim>\<open>prepareEarnings\<close> computes.
  Its \<open>amount\<close> and \<open>earnings\<close> fields go unchanged into the one partner-sale
  notification that is dispatched.
\<close>

theorem program_link_one_earnings_row:
  assumes "customers w (inv_customer invoice) = Some c"
    and "redis w (dedup_key (inv_id invoice)) = None"
    and "amount_paid invoice \<noteq> 0"
    and "lead_events w (cust_id c) = Some (l # ls)"
    and "links w (link_id l) = Some lk"
    and "projects w (projectId c) = Some p"
    and "programId lk = Some prog"
    and "prog \<noteq> []"
    and "find (\<lambda>e. link_id l \<in> set (enr_links e)) (enrollments w) = Some e"
    and "ed = prep \<lparr>ei_linkId = link_id l, ei_customerId = cust_id c,
                     ei_program = enr_program e,
                     ei_partner = \<lparr>p_partnerId = partnerId e,
                                   p_commissionAmount = commissionAmount e\<rparr>,
                     ei_event = (''sale'', eid),
                     ei_sale = (amount_paid invoice, currency invoice, inv_id invoice)\<rparr>"
    and "invoicePaid prep tr eid invoice w = (res, w')"
  shows "earnings w' = earnings w @ [ed] \<and>
    partner_notifications w' = partner_notifications w @
      [\<lparr>ns_partner_id = partnerId e, ns_referralLink = shortLink lk,
        ns_program = enr_program e, ns_amount = ed_amount ed, ns_earnings = ed_earnings ed\<rparr>] \<and>
    res = Inr (''Sale recorded for customer ID '' @ cust_id c @ '' and invoice ID '' @ inv_id invoice)"
proof -
  have t: "truthy (programId lk)"
    using assms(7,8) by (simp add: truthy_def)
  have "invoicePaid prep tr eid invoice w = (res, w')"
    by (rule assms(11))
  with invoicePaid_enrolled
    [where w = w and invoice = invoice and c = c and l = l and ls = ls and lk = lk
       and p = p and e = e and ed = ed and prep = prep and tr = tr and eid = eid]
    t assms(1-6) assms(9,10)
  show ?thesis by auto
qed

theorem program_link_one_earnings_row_witness:
  "(case invoicePaid demo_prepareEarnings id ''evt_1'' (demo_invoice 500)
          (demo_world (Some ''prog_1'') [demo_enrollment] (Some [demo_lead])) of
      (res, w') \<Rightarrow>
        earnings w' = [\<lparr>ed_amount = Some 500, ed_earnings = Some 10\<rparr>] \<and>
        partner_notifications w' =
          [\<lparr>ns_partner_id = ''pn_1'', ns_referralLink = ''https://dub.sh/demo'',
            ns_program = \<lparr>program_name = ''Acme''\<rparr>,
            ns_amount = Some 500, ns_earnings = Some 10\<rparr>] \<and>
        res = Inr ''Sale recorded for customer ID cus_1 and invoice ID in_1'')"
  using program_link_one_earnings_row
    [where w = "demo_world (Some ''prog_1'') [demo_enrollment] (Some [demo_lead])"
       and invoice = "demo_invoice 500" and c = demo_customer and l = demo_lead and ls = "[]"
       and lk = "demo_link (Some ''prog_1'')" and p = demo_project and prog = "''prog_1''"
       and e = demo_enrollment and prep = demo_prepareEarnings and tr = id and eid = "''evt_1''"
       and ed = "\<lparr>ed_amount = Some 500, ed_earnings = Some 10\<rparr>"
       and res = "fst (invoicePaid demo_prepareEarnings id ''evt_1'' (demo_invoice 500)
                        (demo_world (Some ''prog_1'') [demo_enrollment] (Some [demo_lead])))"
       and w' = "snd (invoicePaid demo_prepareEarnings id ''evt_1'' (demo_invoice 500)
                        (demo_world (Some ''prog_1'') [demo_enrollment] (Some [demo_lead])))"]
  by (auto simp add: demo_defs dedup_key_def split_beta)

text \<open>
  The handler tests the program id for truthiness (\<^verbatim>\<open>if (link.programId)\<close>), and the
  empty string is falsy. With a program id that is non-null but empty, and an
  enrollment holding the link, the sale is processed and the handler returns its
  success message, yet there is no earnings row and no partner notification.
\<close>

theorem empty_program_id_no_earnings_counterexample:
  "links (demo_world (Some []) [demo_enrollment] (Some [demo_lead])) ''link_1'' =
     Some (demo_link (Some [])) \<and>
   programId (demo_link (Some [])) \<noteq> None \<and>
   invoicePaid demo_prepareEarnings id ''evt_1'' (demo_invoice 500)
     (demo_world (Some []) [demo_enrollment] (Some [demo_lead])) =
   (Inr ''Sale recorded for customer ID cus_1 and invoice ID in_1'',
    (demo_world (Some []) [demo_enrollment] (Some [demo_lead]))
      \<lparr>redis := [''dub_sale_events:invoiceId:in_1'' \<mapsto> (1, 604800)],
        links := [''link_1'' \<mapsto> (demo_link (Some []))\<lparr>sales := 3, saleAmount := 1200\<rparr>],
        projects := [''ws_1'' \<mapsto> \<lparr>usage = 11, salesUsage = 1400\<rparr>],
        sale_events :=
          [\<lparr>lead = demo_lead, event_id = ''evt_1'', event_name = ''Subscription update'',
            payment_processor = ''stripe'', amount = 500, sale_currency = ''usd'',
            invoice_id = ''in_1'', metadata = demo_invoice 500\<rparr>],
        earnings := [],
        partner_notifications := [],
        webhooks :=
          [\<lparr>trigger = ''sale.created'', workspace = \<lparr>usage = 11, salesUsage = 1400\<rparr>,
            wh_data =
              \<lparr>se_sale =
                 \<lparr>lead = demo_lead, event_id = ''evt_1'', event_name = ''Subscription update'',
                  payment_processor = ''stripe'', amount = 500, sale_currency = ''usd'',
                  invoice_id = ''in_1'', metadata = demo_invoice 500\<rparr>,
               se_clickedAt = Date 1000,
               se_link = (demo_link (Some []))\<lparr>sales := 3, saleAmount := 1200\<rparr>,
               se_customer = demo_customer\<rparr>\<rparr>]\<rparr>)"
  by (simp add: invoicePaid_def redis_set_nx_def Let_def truthy_def or_else_def
        dedup_key_def dedup_expiry_def demo_defs)

text \<open>
  Claim C6. For a processed sale whose link has a null program id, no earnings row is
  created and no partner notification is dispatched, while one workspace webhook with
  trigger \<open>sale.created\<close> is dispatched, and the handler returns its success message.
\<close>

theorem null_program_no_earnings_but_webhook:
  assumes "customers w (inv_customer invoice) = Some c"
    and "redis w (dedup_key (inv_id invoice)) = None"
    and "amount_paid invoice \<noteq> 0"
    and "lead_events w (cust_id c) = Some (l # ls)"
    and "links w (link_id l) = Some lk"
    and "projects w (projectId c) = Some p"
    and "programId lk = None"
    and "invoicePaid prep tr eid invoice w = (res, w')"
  shows "earnings w' = earnings w \<and>
    partner_notifications w' = partner_notifications w \<and>
    (\<exists>wh. webhooks w' = webhooks w @ [wh] \<and> trigger wh = ''sale.created'') \<and>
    res = Inr (''Sale recorded for customer ID '' @ cust_id c @ '' and invoice ID '' @ inv_id invoice)"
proof -
  from assms(7) have "\<not> truthy (programId lk)"
    by (simp add: truthy_def)
  from invoicePaid_plain [OF assms(1-6) this, of prep tr eid] assms(8)
  show ?thesis by auto
qed

theorem null_program_no_earnings_but_webhook_witness:
  "(case invoicePaid demo_prepareEarnings id ''evt_1'' (demo_invoice 500)
          (demo_world None [demo_enrollment] (Some [demo_lead])) of
      (res, w') \<Rightarrow>
        earnings w' = [] \<and> partner_notifications w' = [] \<and>
        map trigger (webhooks w') = [''sale.created''] \<and>
        res = Inr ''Sale recorded for customer ID cus_1 and invoice ID in_1'')"
  using null_program_no_earnings_but_webhook
    [where w = "demo_world None [demo_enrollment] (Some [demo_lead])"
       and invoice = "demo_invoice 500" and c = demo_customer and l = demo_lead and ls = "[]"
       and lk = "demo_link None" and p = demo_project
       and prep = demo_prepareEarnings and tr = id and eid = "''evt_1''"
       and res = "fst (invoicePaid demo_prepareEarnings id ''evt_1'' (demo_invoice 500)
                        (demo_world None [demo_enrollment] (Some [demo_lead])))"
       and w' = "snd (invoicePaid demo_prepareEarnings id ''evt_1'' (demo_invoice 500)
                        (demo_world None [demo_enrollment] (Some [demo_lead])))"]
  by (auto simp add: demo_defs dedup_key_def split_beta)

text \<open>
  Claim C8, amended. For a processed sale whose link has a program id that is neither
  null nor the empty string, and for which no enrollment holds the link, the handler
  throws: the find-or-throw lookup's exception is the result, not a skip message. The
  world returned with it holds the dedup key, the appended sale event and both
  counter increments; nothing undoes them. No earnings row, notification or webhook
  has been added.
\<close>

theorem missing_enrollment_throws_after_writes:
  assumes "customers w (inv_customer invoice) = Some c"
    and "redis w (dedup_key (inv_id invoice)) = None"
    and "amount_paid invoice \<noteq> 0"
    and "lead_events w (cust_id c) = Some (l # ls)"
    and "links w (link_id l) = Some lk"
    and "projects w (projectId c) = Some p"
    and "programId lk = Some prog"
    and "prog \<noteq> []"
    and "find (\<lambda>e. link_id l \<in> set (enr_links e)) (enrollments w) = None"
  shows "invoicePaid prep tr eid invoice w =
    (Inl EnrollmentNotFound,
     w\<lparr>redis := (redis w)(dedup_key (inv_id invoice) \<mapsto> (1, 60 * 60 * 24 * 7)),
       sale_events := sale_events w @
         [\<lparr>lead = l, event_id = eid, event_name = ''Subscription update'',
           payment_processor = ''stripe'', amount = amount_paid invoice,
           sale_currency = currency invoice, invoice_id = inv_id invoice,
           metadata = invoice\<rparr>],
       links := (links w)(link_id l \<mapsto>
         lk\<lparr>sales := sales lk + 1, saleAmount := saleAmount lk + amount_paid invoice\<rparr>),
       projects := (projects w)(projectId c \<mapsto>
         p\<lparr>usage := usage p + 1, salesUsage := salesUsage p + amount_paid invoice\<rparr>)\<rparr>)"
  using assms
  by (simp add: invoicePaid_def redis_set_nx_def dedup_expiry_def truthy_def Let_def)

theorem missing_enrollment_throws_after_writes_witness:
  "invoicePaid demo_prepareEarnings id ''evt_1'' (demo_invoice 500)
     (demo_world (Some ''prog_1'') [] (Some [demo_lead])) =
   (Inl EnrollmentNotFound,
    (demo_world (Some ''prog_1'') [] (Some [demo_lead]))
      \<lparr>redis := [''dub_sale_events:invoiceId:in_1'' \<mapsto> (1, 604800)],
        sale_events :=
          [\<lparr>lead = demo_lead, event_id = ''evt_1'', event_name = ''Subscription update'',
            payment_processor = ''stripe'', amount = 500, sale_currency = ''usd'',
            invoice_id = ''in_1'', metadata = demo_invoice 500\<rparr>],
        links := [''link_1'' \<mapsto> (demo_link (Some ''prog_1''))\<lparr>sales := 3, saleAmount := 1200\<rparr>],
        projects := [''ws_1'' \<mapsto> \<lparr>usage = 11, salesUsage = 1400\<rparr>]\<rparr>)"
  using missing_enrollment_throws_after_writes
    [where w = "demo_world (Some ''prog_1'') [] (Some [demo_lead])"
       and invoice = "demo_invoice 500" and c = demo_customer and l = demo_lead and ls = "[]"
       and lk = "demo_link (Some ''prog_1'')" and p = demo_project and prog = "''prog_1''"
       and prep = demo_prepareEarnings and tr = id and eid = "''evt_1''"]
  by (simp add: demo_defs dedup_key_def)

text \<open>
  A program id that is non-null but empty is falsy, so the program branch and its
  find-or-throw lookup are skipped: with no enrollment at all, the handler still
  returns its success message.
\<close>

theorem empty_program_id_no_throw_counterexample:
  "links (demo_world (Some []) [] (Some [demo_lead])) ''link_1'' = Some (demo_link (Some [])) \<and>
   programId (demo_link (Some [])) \<noteq> None \<and>
   enrollments (demo_world (Some []) [] (Some [demo_lead])) = [] \<and>
   fst (invoicePaid demo_prepareEarnings id ''evt_1'' (demo_invoice 500)
         (demo_world (Some []) [] (Some [demo_lead]))) =
     Inr ''Sale recorded for customer ID cus_1 and invoice ID in_1''"
  by (simp add: invoicePaid_def redis_set_nx_def Let_def truthy_def demo_defs)

subsection \<open>The workspace webhook\<close>

text \<open>
  Claim C9. For every sale that is processed to the end (the program branch is not
  taken, or it finds an enrollment), exactly one workspace webhook is appended. The
  argument handed to \<^verbatim>\<open>transformSaleEventData\<close> for its payload carries, as
  \<^verbatim>\<open>clickedAt\<close>, the customer's first-click time when that is not null and the
  customer's creation time otherwise; and, as \<^verbatim>\<open>link\<close>, the link after the increment,
  which differs from the link before it.
\<close>

theorem webhook_click_time_and_updated_link:
  assumes "customers w (inv_customer invoice) = Some c"
    and "redis w (dedup_key (inv_id invoice)) = None"
    and "amount_paid invoice \<noteq> 0"
    and "lead_events w (cust_id c) = Some (l # ls)"
    and "links w (link_id l) = Some lk"
    and "projects w (projectId c) = Some p"
    and "\<not> truthy (programId lk) \<or>
         find (\<lambda>e. link_id l \<in> set (enr_links e)) (enrollments w) \<noteq> None"
    and "invoicePaid prep tr eid invoice w = (res, w')"
  shows "webhooks w' = webhooks w @
      [\<lparr>trigger = ''sale.created'',
        workspace = p\<lparr>usage := usage p + 1, salesUsage := salesUsage p + amount_paid invoice\<rparr>,
        wh_data = tr
          \<lparr>se_sale = \<lparr>lead = l, event_id = eid, event_name = ''Subscription update'',
              payment_processor = ''stripe'', amount = amount_paid invoice,
              sale_currency = currency invoice, invoice_id = inv_id invoice,
              metadata = invoice\<rparr>,
           se_clickedAt = (case clickedAt c of Some t \<Rightarrow> t | None \<Rightarrow> createdAt c),
           se_link = lk\<lparr>sales := sales lk + 1, saleAmount := saleAmount lk + amount_paid invoice\<rparr>,
           se_customer = c\<rparr>\<rparr>]
    \<and> lk\<lparr>sales := sales lk + 1, saleAmount := saleAmount lk + amount_paid invoice\<rparr> \<noteq> lk"
proof -
  have r: "invoicePaid prep tr eid invoice w = (res, w')"
    by (rule assms(8))
  have click: "or_else (clickedAt c) (createdAt c) =
      (case clickedAt c of Some t \<Rightarrow> t | None \<Rightarrow> createdAt c)"
    by (simp add: or_else_def split: option.splits)
  have changed: "lk\<lparr>sales := sales lk + 1, saleAmount := saleAmount lk + amount_paid invoice\<rparr> \<noteq> lk"
  proof
    assume "lk\<lparr>sales := sales lk + 1, saleAmount := saleAmount lk + amount_paid invoice\<rparr> = lk"
    then have "sales (lk\<lparr>sales := sales lk + 1,
        saleAmount := saleAmount lk + amount_paid invoice\<rparr>) = sales lk"
      by simp
    then show False by simp
  qed
  show ?thesis
  proof (cases "truthy (programId lk)")
    case False
    from invoicePaid_plain [OF assms(1-6) False, of prep tr eid] r click changed
    show ?thesis by auto
  next
    case True
    with assms(7) obtain e where
      e: "find (\<lambda>e. link_id l \<in> set (enr_links e)) (enrollments w) = Some e"
      by auto
    from invoicePaid_enrolled
      [where w = w and invoice = invoice and c = c and l = l and ls = ls and lk = lk
         and p = p and e = e and prep = prep and tr = tr and eid = eid, OF assms(1-6) True e refl]
      r click changed
    show ?thesis by auto
  qed
qed

theorem webhook_click_time_and_updated_link_witness:
  "map wh_data (webhooks (snd (invoicePaid demo_prepareEarnings id ''evt_1'' (demo_invoice 500)
      ((demo_world (Some ''prog_1'') [demo_enrollment] (Some [demo_lead]))
         \<lparr>customers := [''cus_stripe_1'' \<mapsto> demo_customer\<lparr>clickedAt := Some (Date 400)\<rparr>]\<rparr>)))) =
   [\<lparr>se_sale = \<lparr>lead = demo_lead, event_id = ''evt_1'', event_name = ''Subscription update'',
        payment_processor = ''stripe'', amount = 500, sale_currency = ''usd'',
        invoice_id = ''in_1'', metadata = demo_invoice 500\<rparr>,
     se_clickedAt = Date 400,
     se_link = \<lparr>programId = Some ''prog_1'', shortLink = ''https://dub.sh/demo'',
                sales = 3, saleAmount = 1200\<rparr>,
     se_customer = demo_customer\<lparr>clickedAt := Some (Date 400)\<rparr>\<rparr>]"
  using webhook_click_time_and_updated_link
    [where w = "(demo_world (Some ''prog_1'') [demo_enrollment] (Some [demo_lead]))
         \<lparr>customers := [''cus_stripe_1'' \<mapsto> demo_customer\<lparr>clickedAt := Some (Date 400)\<rparr>]\<rparr>"
       and invoice = "demo_invoice 500" and c = "demo_customer\<lparr>clickedAt := Some (Date 400)\<rparr>"
       and l = demo_lead and ls = "[]"
       and lk = "demo_link (Some ''prog_1'')" and p = demo_project
       and prep = demo_prepareEarnings and tr = id and eid = "''evt_1''"
       and res = "fst (invoicePaid demo_prepareEarnings id ''evt_1'' (demo_invoice 500)
           ((demo_world (Some ''prog_1'') [demo_enrollment] (Some [demo_lead]))
         \<lparr>customers := [''cus_stripe_1'' \<mapsto> demo_customer\<lparr>clickedAt := Some (Date 400)\<rparr>]\<rparr>))"
       and w' = "snd (invoicePaid demo_prepareEarnings id ''evt_1'' (demo_invoice 500)
           ((demo_world (Some ''prog_1'') [demo_enrollment] (Some [demo_lead]))
         \<lparr>customers := [''cus_stripe_1'' \<mapsto> demo_customer\<lparr>clickedAt := Some (Date 400)\<rparr>]\<rparr>))"]
  by (simp add: demo_defs dedup_key_def truthy_def)

subsection \<open>An unknown customer\<close>

text \<open>
  Claim C10. When the invoice's external customer id resolves to no customer, the
  handler returns its skip message and the world is unchanged; in particular the
  dedup key of the invoice id is not set. So if the key was not set before, and the
  customer is later added, a second delivery of the same invoice passes the dedup
  claim (which then sets the key) and, given a nonzero amount, a lead row and its
  link, ingests the sale event.
\<close>

theorem unknown_customer_keeps_dedup_key:
  assumes "customers w (inv_customer invoice) = None"
  shows "invoicePaid prep tr eid invoice w =
     (Inr (''Customer with stripeCustomerId '' @ inv_customer invoice @ '' not found, skipping...''), w)
   \<and>
   (redis w (dedup_key (inv_id invoice)) = None \<and>
    w' = w\<lparr>customers := (customers w)(inv_customer invoice \<mapsto> c)\<rparr> \<and>
    amount_paid invoice \<noteq> 0 \<and>
    lead_events w (cust_id c) = Some (l # ls) \<and>
    links w (link_id l) = Some lk \<longrightarrow>
      redis (snd (invoicePaid prep' tr' eid' invoice w')) (dedup_key (inv_id invoice)) =
        Some (1, 60 * 60 * 24 * 7) \<and>
      sale_events (snd (invoicePaid prep' tr' eid' invoice w')) =
        sale_events w @
         [\<lparr>lead = l, event_id = eid', event_name = ''Subscription update'',
           payment_processor = ''stripe'', amount = amount_paid invoice,
           sale_currency = currency invoice, invoice_id = inv_id invoice,
           metadata = invoice\<rparr>])"
  using assms
  by (simp add: invoicePaid_def redis_set_nx_def dedup_expiry_def Let_def
           split: option.splits sum.splits)

theorem unknown_customer_keeps_dedup_key_witness:
  "invoicePaid demo_prepareEarnings id ''evt_1'' (demo_invoice 500)
     ((demo_world None [] (Some [demo_lead]))\<lparr>customers := Map.empty\<rparr>) =
   (Inr ''Customer with stripeCustomerId cus_stripe_1 not found, skipping...'',
    (demo_world None [] (Some [demo_lead]))\<lparr>customers := Map.empty\<rparr>)
   \<and>
   sale_events (snd (invoicePaid demo_prepareEarnings id ''evt_2'' (demo_invoice 500)
      (demo_world None [] (Some [demo_lead])))) =
     [\<lparr>lead = demo_lead, event_id = ''evt_2'', event_name = ''Subscription update'',
       payment_processor = ''stripe'', amount = 500, sale_currency = ''usd'',
       invoice_id = ''in_1'', metadata = demo_invoice 500\<rparr>]"
  using unknown_customer_keeps_dedup_key
    [where w = "(demo_world None [] (Some [demo_lead]))\<lparr>customers := Map.empty\<rparr>"
       and invoice = "demo_invoice 500" and prep = demo_prepareEarnings and tr = id
       and eid = "''evt_1''" and c = demo_customer and l = demo_lead and ls = "[]"
       and lk = "demo_link None" and w' = "demo_world None [] (Some [demo_lead])"
       and prep' = demo_prepareEarnings and tr' = id and eid' = "''evt_2''"]
  by (simp add: demo_defs dedup_key_def)

end
